theory Spec2Isabelle
  imports Complex_Main "HOL-Library.Multiset"
begin

section \<open>Data model and external collaborators\<close>

text \<open>
  The program (\<^verbatim>\<open>src/predict.py\<close>) reads race data through the \<^verbatim>\<open>fastf1\<close> library and
  tabulates it with \<^verbatim>\<open>pandas\<close>. Both are external; they enter the model as parameters:
  \<^item> \<^verbatim>\<open>fastf1.get_session(year, rnd, kind)\<close> followed by \<^verbatim>\<open>.load()\<close> and \<^verbatim>\<open>.results\<close> is a
    function to an optional list of result rows, \<open>None\<close> when any of the three raises;
  \<^item> \<^verbatim>\<open>fastf1.get_event_schedule(year)\<close> is a function to an optional list of events;
  \<^item> \<^verbatim>\<open>Series.str.contains(pat, case=False, na=False)\<close> is a function from the pattern to
    an optional predicate on event names, \<open>None\<close> when pandas raises on the pattern;
  \<^item> \<^verbatim>\<open>datetime.utcnow()\<close> is a timestamp parameter;
  \<^item> the iteration order of a Python \<^verbatim>\<open>set\<close> is a function from the set to a list.
  Python floats are idealised as real numbers, Python ints are \<open>int\<close>. A driver number is
  a string, as \<^verbatim>\<open>fastf1\<close> delivers it. A position is a float cell of the results table: a
  number, or a value that is not one (NaN, which \<^verbatim>\<open>fastf1\<close> leaves where no position is
  known, or an infinity).
\<close>

datatype session_kind = R | Sprint

datatype float_cell = Num real | NotNum

record result_entry =
  DriverNumber :: string
  FullName :: string
  Position :: float_cell

text \<open>
  \<^verbatim>\<open>int(x)\<close> on a float: the number cut off towards zero; on NaN or an infinity it raises,
  which is \<open>None\<close> here.
\<close>

fun py_int :: "float_cell \<Rightarrow> int option" where
  "py_int (Num x) = Some (if 0 \<le> x then \<lfloor>x\<rfloor> else \<lceil>x\<rceil>)"
| "py_int NotNum = None"

record event =
  EventName :: string
  RoundNumber :: int
  EventDate :: int

type_synonym results_provider = "int \<Rightarrow> int \<Rightarrow> session_kind \<Rightarrow> result_entry list option"
type_synonym schedule_provider = "int \<Rightarrow> event list option"
type_synonym name_matcher = "string \<Rightarrow> (string \<Rightarrow> bool) option"

text \<open>\<^verbatim>\<open>d.get(k, default)\<close> on a dictionary.\<close>

definition dict_get :: "('k \<rightharpoonup> 'v) \<Rightarrow> 'k \<Rightarrow> 'v \<Rightarrow> 'v" where
  "dict_get d k dflt = (case d k of None \<Rightarrow> dflt | Some v \<Rightarrow> v)"


section \<open>get_total_driver_points\<close>

definition FIA_POINTS_RACE :: "int list" where
  "FIA_POINTS_RACE = [25, 18, 15, 12, 10, 8, 6, 4, 2, 1]"

definition FIA_POINTS_SPRINT :: "int list" where
  "FIA_POINTS_SPRINT = [8, 7, 6, 5, 4, 3, 2, 1]"

type_synonym points_dict = "string \<rightharpoonup> real"

text \<open>
  \<^verbatim>\<open>points[k] += v\<close> on a \<^verbatim>\<open>defaultdict(float)\<close>: a missing key starts from \<open>0.0\<close>.
\<close>

definition add_points :: "points_dict \<Rightarrow> string \<Rightarrow> int \<Rightarrow> points_dict" where
  "add_points points k v = points(k \<mapsto> (case points k of None \<Rightarrow> 0 | Some p \<Rightarrow> p) + of_int v)"

text \<open>
  The inner loop \<^verbatim>\<open>for i, drv in enumerate(results.itertuples(), start=1):
  if i <= limit: points[drv.DriverNumber] += table[i - 1]\<close>, with the counter \<open>i\<close> explicit.
  The index \<open>i - 1\<close> is within the table at both call sites (\<open>limit\<close> is the table's length).
\<close>

fun award :: "int list \<Rightarrow> nat \<Rightarrow> nat \<Rightarrow> result_entry list \<Rightarrow> points_dict \<Rightarrow> points_dict" where
  "award table limit i [] points = points"
| "award table limit i (drv # rest) points =
     award table limit (i + 1) rest
       (if i \<le> limit then add_points points (DriverNumber drv) (table ! (i - 1)) else points)"

text \<open>
  The body of \<^verbatim>\<open>for rnd in valid_rounds\<close>. The first \<^verbatim>\<open>except: continue\<close> leaves the
  iteration, so the Sprint session is fetched only after the Race session loaded.
\<close>

definition points_round :: "results_provider \<Rightarrow> int \<Rightarrow> int \<Rightarrow> points_dict \<Rightarrow> points_dict" where
  "points_round get_session year rnd points =
     (case get_session year rnd R of
        None \<Rightarrow> points
      | Some race \<Rightarrow>
          (let points1 = award FIA_POINTS_RACE 10 1 race points in
           case get_session year rnd Sprint of
             None \<Rightarrow> points1
           | Some sprint \<Rightarrow> award FIA_POINTS_SPRINT 8 1 sprint points1))"

definition get_total_driver_points :: "results_provider \<Rightarrow> int \<Rightarrow> int list \<Rightarrow> points_dict" where
  "get_total_driver_points get_session year valid_rounds =
     foldl (\<lambda>points rnd. points_round get_session year rnd points) Map.empty valid_rounds"


section \<open>get_avg_finish_pos\<close>

type_synonym finishes_dict = "string \<rightharpoonup> int list"

text \<open>
  \<^verbatim>\<open>for drv in race.results.itertuples(): finishes[key(drv)].append(int(drv.Position))\<close>,
  keyed by driver number in the season average and by full name in the track history.
  Python evaluates one iteration in this order:
  \<^enum> \<^verbatim>\<open>finishes[k]\<close> on the \<^verbatim>\<open>defaultdict(list)\<close>: a missing key is created with the empty
    list, and the list under the key is the receiver;
  \<^enum> \<^verbatim>\<open>int(drv.Position)\<close>: when it raises, the enclosing \<^verbatim>\<open>except\<close> clause ends the work on
    this result: the rows so far stay recorded, the key just created stays with its
    list, the remaining rows are not read;
  \<^enum> \<^verbatim>\<open>.append\<close>: the position is added at the end of the list.
  Both callers handle the exception alike (\<^verbatim>\<open>continue\<close> with the next round or season), so
  the function returns the dictionary as the loop leaves it.
\<close>

fun record_positions ::
  "(result_entry \<Rightarrow> string) \<Rightarrow> result_entry list \<Rightarrow> finishes_dict \<Rightarrow> finishes_dict" where
  "record_positions key [] finishes = finishes"
| "record_positions key (drv # rest) finishes =
     (let k = key drv;
          pos_list = (case finishes k of None \<Rightarrow> [] | Some stored \<Rightarrow> stored);
          finishes1 = finishes(k \<mapsto> pos_list)
      in case py_int (Position drv) of
           None \<Rightarrow> finishes1
         | Some pos \<Rightarrow> record_positions key rest (finishes1(k \<mapsto> pos_list @ [pos])))"

text \<open>The value expression \<^verbatim>\<open>sum(pos_list)/len(pos_list) if pos_list else 20\<close>.\<close>

definition mean_or_default :: "int list \<Rightarrow> real" where
  "mean_or_default pos_list =
     (if pos_list \<noteq> [] then of_int (sum_list pos_list) / of_nat (length pos_list) else 20)"

text \<open>The dictionary \<^verbatim>\<open>finishes\<close> when the loop over \<^verbatim>\<open>valid_rounds\<close> has ended.\<close>

definition season_finishes :: "results_provider \<Rightarrow> int \<Rightarrow> int list \<Rightarrow> finishes_dict" where
  "season_finishes get_session year valid_rounds =
     foldl (\<lambda>finishes rnd.
              case get_session year rnd R of
                None \<Rightarrow> finishes
              | Some race \<Rightarrow> record_positions DriverNumber race finishes)
           Map.empty valid_rounds"

definition get_avg_finish_pos :: "results_provider \<Rightarrow> int \<Rightarrow> int list \<Rightarrow> (string \<rightharpoonup> real)" where
  "get_avg_finish_pos get_session year valid_rounds =
     (\<lambda>driver. map_option mean_or_default (season_finishes get_session year valid_rounds driver))"


section \<open>get_past_track_performance\<close>

text \<open>
  The calls made to the two providers are part of what this function does, so the loop
  carries them along with the dictionary: each call is appended when it is made.
\<close>

datatype provider_call = ScheduleCall int | SessionCall int int session_kind

fun call_season :: "provider_call \<Rightarrow> int" where
  "call_season (ScheduleCall y) = y"
| "call_season (SessionCall y rnd kind) = y"

text \<open>\<^verbatim>\<open>[y for y in range(year - 3, year) if y >= 2018]\<close>\<close>

definition past_years :: "int \<Rightarrow> int list" where
  "past_years year = filter (\<lambda>y. y \<ge> 2018) [year - 3..year - 1]"

text \<open>
  The body of \<^verbatim>\<open>for y in past_years\<close>. Every exception inside it, and an empty match,
  ends the iteration with the dictionary as it is.
\<close>

definition track_performance_year ::
  "schedule_provider \<Rightarrow> results_provider \<Rightarrow> name_matcher \<Rightarrow> string \<Rightarrow> int \<Rightarrow>
   provider_call list \<times> finishes_dict \<Rightarrow> provider_call list \<times> finishes_dict" where
  "track_performance_year get_event_schedule get_session str_contains circuit_name y st =
     (case st of (calls, track_performance) \<Rightarrow>
        (case get_event_schedule y of
           None \<Rightarrow> (calls @ [ScheduleCall y], track_performance)
         | Some schedule \<Rightarrow>
             (case str_contains circuit_name of
                None \<Rightarrow> (calls @ [ScheduleCall y], track_performance)
              | Some matches \<Rightarrow>
                  (case filter (\<lambda>ev. matches (EventName ev)) schedule of
                     [] \<Rightarrow> (calls @ [ScheduleCall y], track_performance)
                   | circuit_event # _ \<Rightarrow>
                       (let rnd = RoundNumber circuit_event;
                            calls1 = calls @ [ScheduleCall y, SessionCall y rnd R]
                        in case get_session y rnd R of
                             None \<Rightarrow> (calls1, track_performance)
                           | Some race \<Rightarrow>
                               (calls1, record_positions FullName race track_performance))))))"

definition track_performance_loop ::
  "schedule_provider \<Rightarrow> results_provider \<Rightarrow> name_matcher \<Rightarrow> string \<Rightarrow> int \<Rightarrow>
   provider_call list \<times> finishes_dict" where
  "track_performance_loop get_event_schedule get_session str_contains circuit_name year =
     foldl (\<lambda>st y. track_performance_year get_event_schedule get_session str_contains circuit_name y st)
           ([], Map.empty) (past_years year)"

definition get_past_track_performance ::
  "schedule_provider \<Rightarrow> results_provider \<Rightarrow> name_matcher \<Rightarrow> string \<Rightarrow> int \<Rightarrow> (string \<rightharpoonup> real)" where
  "get_past_track_performance get_event_schedule get_session str_contains circuit_name year =
     (\<lambda>driver. map_option mean_or_default
        (snd (track_performance_loop get_event_schedule get_session str_contains circuit_name year) driver))"

definition get_past_track_performance_calls ::
  "schedule_provider \<Rightarrow> results_provider \<Rightarrow> name_matcher \<Rightarrow> string \<Rightarrow> int \<Rightarrow> provider_call list" where
  "get_past_track_performance_calls get_event_schedule get_session str_contains circuit_name year =
     fst (track_performance_loop get_event_schedule get_session str_contains circuit_name year)"


section \<open>predict_race\<close>

text \<open>
  The ways \<^verbatim>\<open>predict_race\<close> ends without a table: the schedule call or the pattern match
  raises (the caller reports it), or no event matches (a message is printed and the
  function returns).
\<close>

datatype failure = ScheduleUnavailable | PatternError | NoCircuitFound

text \<open>The data frame at its three stages: as built, with the score, with the rank.\<close>

record data_row =
  Driver :: string
  Points :: real
  AvgFinishPos :: real
  TrackAvgPos :: real

record scored_row = data_row +
  CustomScore :: real

record ranked_row = scored_row +
  PredictedRank :: nat

definition W_POINTS :: real where "W_POINTS = 20"
definition W_AVG_FINISH :: real where "W_AVG_FINISH = 25"
definition W_TRACK_AVG :: real where "W_TRACK_AVG = 25"

text \<open>
  \<^verbatim>\<open>season_drivers.add(driver_num); name_lookup[driver_num] = drv.FullName\<close> for every row
  of one race result.
\<close>

definition collect_drivers ::
  "result_entry list \<Rightarrow> string set \<times> (string \<rightharpoonup> string) \<Rightarrow> string set \<times> (string \<rightharpoonup> string)" where
  "collect_drivers results st =
     foldl (\<lambda>(season_drivers, name_lookup) drv.
              (insert (DriverNumber drv) season_drivers,
               name_lookup(DriverNumber drv \<mapsto> FullName drv)))
           st results"

definition season_driver_names ::
  "results_provider \<Rightarrow> int \<Rightarrow> int list \<Rightarrow> string set \<times> (string \<rightharpoonup> string)" where
  "season_driver_names get_session year valid_rounds =
     foldl (\<lambda>st rnd.
              case get_session year rnd R of
                None \<Rightarrow> st
              | Some race \<Rightarrow> collect_drivers race st)
           ({}, Map.empty) valid_rounds"

text \<open>The body of \<^verbatim>\<open>for drv in season_drivers\<close>: one row of \<^verbatim>\<open>data\<close>.\<close>

definition data_row_for ::
  "(string \<rightharpoonup> string) \<Rightarrow> points_dict \<Rightarrow> (string \<rightharpoonup> real) \<Rightarrow> (string \<rightharpoonup> real) \<Rightarrow> string \<Rightarrow> data_row" where
  "data_row_for name_lookup points avg_finish track_perf drv =
     (let name = dict_get name_lookup drv (''Driver #'' @ drv);
          pts = dict_get points drv 0;
          avg_pos = dict_get avg_finish drv 20;
          track_pos = dict_get track_perf name 20
      in \<lparr>Driver = name, Points = pts, AvgFinishPos = avg_pos, TrackAvgPos = track_pos\<rparr>)"

definition add_custom_score :: "data_row \<Rightarrow> scored_row" where
  "add_custom_score r =
     \<lparr>Driver = Driver r, Points = Points r, AvgFinishPos = AvgFinishPos r,
      TrackAvgPos = TrackAvgPos r,
      CustomScore = Points r * W_POINTS + (- AvgFinishPos r) * W_AVG_FINISH
                    + (- TrackAvgPos r) * W_TRACK_AVG\<rparr>"

text \<open>
  \<^verbatim>\<open>df.sort_values("CustomScore", ascending=False)\<close>. The order pandas leaves among equal
  scores is not fixed by the program; the model keeps their earlier order.
\<close>

definition sort_values_descending :: "scored_row list \<Rightarrow> scored_row list" where
  "sort_values_descending df = sort_key (\<lambda>r. - CustomScore r) df"

text \<open>\<^verbatim>\<open>df.reset_index(drop=True); df["PredictedRank"] = df.index + 1\<close>\<close>

definition with_predicted_rank :: "nat \<Rightarrow> scored_row \<Rightarrow> ranked_row" where
  "with_predicted_rank index r =
     \<lparr>Driver = Driver r, Points = Points r, AvgFinishPos = AvgFinishPos r,
      TrackAvgPos = TrackAvgPos r, CustomScore = CustomScore r,
      PredictedRank = index + 1\<rparr>"

definition add_predicted_rank :: "scored_row list \<Rightarrow> ranked_row list" where
  "add_predicted_rank df =
     map (\<lambda>(index, r). with_predicted_rank index r) (zip [0..<length df] df)"

text \<open>
  \<^verbatim>\<open>round(x, 2)\<close>: the nearest multiple of one hundredth, the even one at a tie.
\<close>

definition round2 :: "real \<Rightarrow> real" where
  "round2 x =
     (let y = x * 100;
          f = \<lfloor>y\<rfloor>;
          d = y - of_int f;
          n = (if d < 1 / 2 then f else if 1 / 2 < d then f + 1
               else if even f then f else f + 1)
      in of_int n / 100)"

text \<open>\<^verbatim>\<open>df[float_cols] = df[float_cols].applymap(lambda x: round(x, 2))\<close>\<close>

definition round_float_cols :: "ranked_row \<Rightarrow> ranked_row" where
  "round_float_cols r =
     r\<lparr>Points := round2 (Points r), AvgFinishPos := round2 (AvgFinishPos r),
       TrackAvgPos := round2 (TrackAvgPos r), CustomScore := round2 (CustomScore r)\<rparr>"

text \<open>From \<^verbatim>\<open>data\<close> to the printed table.\<close>

definition ranked_table :: "data_row list \<Rightarrow> ranked_row list" where
  "ranked_table data = add_predicted_rank (sort_values_descending (map add_custom_score data))"

definition printed_table :: "data_row list \<Rightarrow> ranked_row list" where
  "printed_table data = map round_float_cols (ranked_table data)"

text \<open>\<^verbatim>\<open>schedule[pd.to_datetime(schedule["EventDate"]) < now]["RoundNumber"].astype(int).tolist()\<close>\<close>

definition past_rounds :: "event list \<Rightarrow> int \<Rightarrow> int list" where
  "past_rounds schedule now = map RoundNumber (filter (\<lambda>ev. EventDate ev < now) schedule)"

text \<open>The rows of \<^verbatim>\<open>data\<close>, in the order the set \<^verbatim>\<open>season_drivers\<close> is iterated.\<close>

definition season_data ::
  "schedule_provider \<Rightarrow> results_provider \<Rightarrow> name_matcher \<Rightarrow> (string set \<Rightarrow> string list) \<Rightarrow>
   int \<Rightarrow> string \<Rightarrow> int list \<Rightarrow> data_row list" where
  "season_data get_event_schedule get_session str_contains set_iter year circuit_name valid_rounds =
     (let points = get_total_driver_points get_session year valid_rounds;
          avg_finish = get_avg_finish_pos get_session year valid_rounds;
          track_perf = get_past_track_performance get_event_schedule get_session str_contains
                         circuit_name year
      in case season_driver_names get_session year valid_rounds of
           (season_drivers, name_lookup) \<Rightarrow>
             map (data_row_for name_lookup points avg_finish track_perf) (set_iter season_drivers))"

definition predict_race ::
  "schedule_provider \<Rightarrow> results_provider \<Rightarrow> name_matcher \<Rightarrow> int \<Rightarrow> (string set \<Rightarrow> string list) \<Rightarrow>
   int \<Rightarrow> string \<Rightarrow> failure + ranked_row list" where
  "predict_race get_event_schedule get_session str_contains now set_iter year circuit_name =
     (case get_event_schedule year of
        None \<Rightarrow> Inl ScheduleUnavailable
      | Some schedule \<Rightarrow>
          (case str_contains circuit_name of
             None \<Rightarrow> Inl PatternError
           | Some matches \<Rightarrow>
               (case filter (\<lambda>ev. matches (EventName ev)) schedule of
                  [] \<Rightarrow> Inl NoCircuitFound
                | circuit_event # _ \<Rightarrow>
                    Inr (printed_table
                           (season_data get_event_schedule get_session str_contains set_iter
                              year circuit_name (past_rounds schedule now))))))"


section \<open>The points tables as the specification words them\<close>

definition race_points_for_rank :: "nat \<Rightarrow> int" where
  "race_points_for_rank rank =
     (if rank = 1 then 25 else if rank = 2 then 18 else if rank = 3 then 15
      else if rank = 4 then 12 else if rank = 5 then 10 else if rank = 6 then 8
      else if rank = 7 then 6 else if rank = 8 then 4 else if rank = 9 then 2
      else if rank = 10 then 1 else 0)"

definition sprint_points_for_rank :: "nat \<Rightarrow> int" where
  "sprint_points_for_rank rank =
     (if rank = 1 then 8 else if rank = 2 then 7 else if rank = 3 then 6
      else if rank = 4 then 5 else if rank = 5 then 4 else if rank = 6 then 3
      else if rank = 7 then 2 else if rank = 8 then 1 else 0)"

text \<open>
  What one session is worth to driver \<open>d\<close>: the table value of every rank (1-based row of
  the result) at which \<open>d\<close> is listed.
\<close>

definition ranked_from :: "nat \<Rightarrow> result_entry list \<Rightarrow> (nat \<times> result_entry) list" where
  "ranked_from i results = zip [i..<i + length results] results"

definition session_points :: "(nat \<Rightarrow> int) \<Rightarrow> result_entry list \<Rightarrow> string \<Rightarrow> int" where
  "session_points tbl results d =
     sum_list (map (\<lambda>(rank, e). if DriverNumber e = d then tbl rank else 0) (ranked_from 1 results))"


text \<open>What one round is worth to driver \<open>d\<close> in the accumulator's loop.\<close>

definition round_points :: "results_provider \<Rightarrow> int \<Rightarrow> int \<Rightarrow> string \<Rightarrow> real" where
  "round_points get_session year rnd d =
     (case get_session year rnd R of
        None \<Rightarrow> 0
      | Some race \<Rightarrow>
          of_int (session_points race_points_for_rank race d)
          + (case get_session year rnd Sprint of
               None \<Rightarrow> 0
             | Some sprint \<Rightarrow> of_int (session_points sprint_points_for_rank sprint d)))"


section \<open>Auxiliary notions for the proofs\<close>


text \<open>The body of the loop that collects the season's drivers, as a function of its own.\<close>

definition collect_round :: "results_provider \<Rightarrow> int \<Rightarrow> string set \<times> (string \<rightharpoonup> string) \<Rightarrow> int \<Rightarrow> string set \<times> (string \<rightharpoonup> string)" where
  "collect_round get_session year st rnd =
     (case get_session year rnd R of None \<Rightarrow> st | Some race \<Rightarrow> collect_drivers race st)"


section \<open>A small season used to run the definitions\<close>

definition entry :: "string \<Rightarrow> string \<Rightarrow> int \<Rightarrow> result_entry" where
  "entry n f p = \<lparr>DriverNumber = n, FullName = f, Position = Num (of_int p)\<rparr>"

text \<open>
  Season 2023 has three events and the clock stands after the second; the circuit was
  also raced in 2022. Round 1 has no Sprint session.
\<close>

definition demo_schedule :: schedule_provider where
  "demo_schedule y =
     (if y = 2023 then
        Some [\<lparr>EventName = ''Bahrain Grand Prix'', RoundNumber = 1, EventDate = 100\<rparr>,
              \<lparr>EventName = ''Italian Grand Prix'', RoundNumber = 2, EventDate = 200\<rparr>,
              \<lparr>EventName = ''Abu Dhabi Grand Prix'', RoundNumber = 3, EventDate = 300\<rparr>]
      else if y = 2022 then
        Some [\<lparr>EventName = ''Italian Grand Prix'', RoundNumber = 16, EventDate = 50\<rparr>]
      else None)"

definition demo_sessions :: results_provider where
  "demo_sessions y rnd kind =
     (if y = 2023 \<and> rnd = 1 \<and> kind = R then
        Some [entry ''1'' ''Max Verstappen'' 1, entry ''44'' ''Lewis Hamilton'' 2]
      else if y = 2023 \<and> rnd = 2 \<and> kind = R then
        Some [entry ''44'' ''Lewis Hamilton'' 1, entry ''1'' ''Max Verstappen'' 2]
      else if y = 2023 \<and> rnd = 2 \<and> kind = Sprint then
        Some [entry ''1'' ''Max Verstappen'' 1, entry ''44'' ''Lewis Hamilton'' 2]
      else if y = 2022 \<and> rnd = 16 \<and> kind = R then
        Some [entry ''1'' ''Max Verstappen'' 1, entry ''44'' ''Lewis Hamilton'' 5]
      else None)"

text \<open>A season whose only round has a Sprint result and no Race result.\<close>

definition sprint_only_sessions :: results_provider where
  "sprint_only_sessions y rnd kind =
     (if y = 2023 \<and> rnd = 1 \<and> kind = Sprint then
        Some [entry ''44'' ''Lewis Hamilton'' 1]
      else None)"

text \<open>
  A season whose only round lists one driver in the Race and another one in the Sprint.
\<close>

definition sprint_guest_sessions :: results_provider where
  "sprint_guest_sessions y rnd kind =
     (if y = 2023 \<and> rnd = 1 \<and> kind = R then
        Some [entry ''1'' ''Max Verstappen'' 1]
      else if y = 2023 \<and> rnd = 1 \<and> kind = Sprint then
        Some [entry ''40'' ''Liam Lawson'' 1, entry ''1'' ''Max Verstappen'' 2]
      else None)"

text \<open>A season in which a driver's recorded name changes between rounds.\<close>

definition renamed_sessions :: results_provider where
  "renamed_sessions y rnd kind =
     (if y = 2023 \<and> rnd = 1 \<and> kind = R then
        Some [entry ''24'' ''Guanyu Zhou'' 1]
      else if y = 2023 \<and> rnd = 2 \<and> kind = R then
        Some [entry ''24'' ''Zhou Guanyu'' 1]
      else if y = 2022 \<and> rnd = 16 \<and> kind = R then
        Some [entry ''24'' ''Guanyu Zhou'' 1]
      else None)"


definition no_sessions :: results_provider where
  "no_sessions y rnd kind = None"

text \<open>A matcher that accepts the event names starting with the pattern.\<close>

definition prefix_matcher :: name_matcher where
  "prefix_matcher pat = Some (\<lambda>name. take (length pat) name = pat)"

text \<open>One iteration order of a set of driver numbers.\<close>

definition demo_iter :: "string set \<Rightarrow> string list" where
  "demo_iter S = filter (\<lambda>d. d \<in> S) [''44'', ''40'', ''24'', ''1'']"


section \<open>Properties of get_total_driver_points\<close>

lemma dict_get_add_points:
  "dict_get (add_points points k v) d 0 = dict_get points d 0 + (if k = d then of_int v else 0)"
  by (simp add: dict_get_def add_points_def split: option.splits)

lemma ranked_from_Cons: "ranked_from i (e # es) = (i, e) # ranked_from (Suc i) es"
  by (simp add: ranked_from_def upt_conv_Cons del: upt_Suc)

lemma ranked_from_Nil: "ranked_from i [] = []"
  by (simp add: ranked_from_def)

lemma award_lookup:
  "dict_get (award table limit i results points) d 0 =
     dict_get points d 0 +
     of_int (sum_list (map (\<lambda>(rank, e). if DriverNumber e = d \<and> rank \<le> limit then table ! (rank - 1) else 0)
                        (ranked_from i results)))"
proof (induction results arbitrary: i points)
  case Nil
  show ?case by (simp add: ranked_from_Nil)
next
  case (Cons e es)
  show ?case
    by (simp add: Cons.IH ranked_from_Cons dict_get_add_points)
qed

lemma race_table_rank:
  "1 \<le> rank \<Longrightarrow> (if rank \<le> 10 then FIA_POINTS_RACE ! (rank - 1) else 0) = race_points_for_rank rank"
proof -
  assume "1 \<le> rank"
  then consider "rank = 1" | "rank = 2" | "rank = 3" | "rank = 4" | "rank = 5" | "rank = 6"
    | "rank = 7" | "rank = 8" | "rank = 9" | "rank = 10" | "10 < rank"
    by atomize_elim arith
  then show ?thesis
    by cases (simp_all add: FIA_POINTS_RACE_def race_points_for_rank_def)
qed

lemma sprint_table_rank:
  "1 \<le> rank \<Longrightarrow> (if rank \<le> 8 then FIA_POINTS_SPRINT ! (rank - 1) else 0) = sprint_points_for_rank rank"
proof -
  assume "1 \<le> rank"
  then consider "rank = 1" | "rank = 2" | "rank = 3" | "rank = 4" | "rank = 5" | "rank = 6"
    | "rank = 7" | "rank = 8" | "8 < rank"
    by atomize_elim arith
  then show ?thesis
    by cases (simp_all add: FIA_POINTS_SPRINT_def sprint_points_for_rank_def)
qed

lemma ranked_from_ranks: "(rank, e) \<in> set (ranked_from i results) \<Longrightarrow> i \<le> rank"
  by (auto simp: ranked_from_def dest!: set_zip_leftD)

lemma award_race_lookup:
  "dict_get (award FIA_POINTS_RACE 10 1 results points) d 0 =
     dict_get points d 0 + of_int (session_points race_points_for_rank results d)"
proof -
  have eq: "map (\<lambda>(rank, e). if DriverNumber e = d \<and> rank \<le> 10 then FIA_POINTS_RACE ! (rank - 1) else 0)
          (ranked_from 1 results) =
        map (\<lambda>(rank, e). if DriverNumber e = d then race_points_for_rank rank else 0)
          (ranked_from 1 results)"
  proof (rule map_cong [OF refl])
    fix p assume "p \<in> set (ranked_from 1 results)"
    then have "1 \<le> fst p" using ranked_from_ranks [of "fst p" "snd p" 1 results] by simp
    from race_table_rank [OF this]
    show "(case p of (rank, e) \<Rightarrow> if DriverNumber e = d \<and> rank \<le> 10 then FIA_POINTS_RACE ! (rank - 1) else 0) =
          (case p of (rank, e) \<Rightarrow> if DriverNumber e = d then race_points_for_rank rank else 0)"
      by (cases p) (simp split: if_splits)
  qed
  show ?thesis
    by (simp only: award_lookup session_points_def eq)
qed

lemma award_sprint_lookup:
  "dict_get (award FIA_POINTS_SPRINT 8 1 results points) d 0 =
     dict_get points d 0 + of_int (session_points sprint_points_for_rank results d)"
proof -
  have eq: "map (\<lambda>(rank, e). if DriverNumber e = d \<and> rank \<le> 8 then FIA_POINTS_SPRINT ! (rank - 1) else 0)
          (ranked_from 1 results) =
        map (\<lambda>(rank, e). if DriverNumber e = d then sprint_points_for_rank rank else 0)
          (ranked_from 1 results)"
  proof (rule map_cong [OF refl])
    fix p assume "p \<in> set (ranked_from 1 results)"
    then have "1 \<le> fst p" using ranked_from_ranks [of "fst p" "snd p" 1 results] by simp
    from sprint_table_rank [OF this]
    show "(case p of (rank, e) \<Rightarrow> if DriverNumber e = d \<and> rank \<le> 8 then FIA_POINTS_SPRINT ! (rank - 1) else 0) =
          (case p of (rank, e) \<Rightarrow> if DriverNumber e = d then sprint_points_for_rank rank else 0)"
      by (cases p) (simp split: if_splits)
  qed
  show ?thesis
    by (simp only: award_lookup session_points_def eq)
qed

lemma points_round_lookup:
  "dict_get (points_round get_session year rnd points) d 0 =
     dict_get points d 0 + round_points get_session year rnd d"
  by (simp add: points_round_def round_points_def award_race_lookup award_sprint_lookup Let_def
           del: One_nat_def split: option.splits)

lemma session_points_nonneg:
  assumes "\<And>rank. 0 \<le> tbl rank"
  shows "0 \<le> session_points tbl results d"
  unfolding session_points_def
  by (rule sum_list_nonneg) (auto simp: assms)

lemma race_points_for_rank_nonneg: "0 \<le> race_points_for_rank rank"
  by (simp add: race_points_for_rank_def)

lemma sprint_points_for_rank_nonneg: "0 \<le> sprint_points_for_rank rank"
  by (simp add: sprint_points_for_rank_def)

lemma round_points_nonneg: "0 \<le> round_points get_session year rnd d"
  by (simp add: round_points_def session_points_nonneg race_points_for_rank_nonneg
        sprint_points_for_rank_nonneg split: option.splits)

lemma points_fold_lookup:
  "dict_get (foldl (\<lambda>points rnd. points_round get_session year rnd points) points0 rounds) d 0 =
     dict_get points0 d 0 + (\<Sum>rnd\<leftarrow>rounds. round_points get_session year rnd d)"
  by (induction rounds arbitrary: points0) (simp_all add: points_round_lookup)

lemma dict_get_empty: "dict_get Map.empty k dflt = dflt"
  by (simp add: dict_get_def)

lemma total_points_lookup:
  "dict_get (get_total_driver_points get_session year rounds) d 0 =
     (\<Sum>rnd\<leftarrow>rounds. round_points get_session year rnd d)"
  by (simp add: get_total_driver_points_def points_fold_lookup dict_get_empty)

text \<open>
  Claim C5. In a round whose Race result is available, every driver's total grows by the
  race table value of each row the driver holds in the Race result (25, 18, 15, 12, 10,
  8, 6, 4, 2, 1 for rows 1 to 10, nothing beyond), plus, when the Sprint result is
  available too, the sprint table value of each row the driver holds there (8, 7, 6, 5,
  4, 3, 2, 1 for rows 1 to 8, nothing beyond). Both are added to what the driver had.
\<close>

theorem race_and_sprint_tables_awarded:
  assumes "get_session year rnd R = Some race"
  shows "dict_get (points_round get_session year rnd points) d 0 =
           dict_get points d 0
           + of_int (session_points race_points_for_rank race d)
           + (case get_session year rnd Sprint of
                None \<Rightarrow> 0
              | Some sprint \<Rightarrow> of_int (session_points sprint_points_for_rank sprint d))"
  using assms by (simp add: points_round_lookup round_points_def)

theorem race_and_sprint_tables_awarded_witness:
  "demo_sessions 2023 2 R = Some [entry ''44'' ''Lewis Hamilton'' 1, entry ''1'' ''Max Verstappen'' 2]
   \<and> dict_get (points_round demo_sessions 2023 2 Map.empty) ''44'' 0 = 25 + 7
   \<and> dict_get (points_round demo_sessions 2023 2 Map.empty) ''1'' 0 = 18 + 8"
  using race_and_sprint_tables_awarded [of demo_sessions 2023 2 "[entry ''44'' ''Lewis Hamilton'' 1, entry ''1'' ''Max Verstappen'' 2]" Map.empty "''44''"]
    race_and_sprint_tables_awarded [of demo_sessions 2023 2 "[entry ''44'' ''Lewis Hamilton'' 1, entry ''1'' ''Max Verstappen'' 2]" Map.empty "''1''"]
  by (simp add: demo_sessions_def entry_def session_points_def ranked_from_def
        race_points_for_rank_def sprint_points_for_rank_def dict_get_def)

text \<open>
  Claim C7. No driver's total is negative; running the accumulator on the rounds followed
  by one more round is running it on the rounds and then applying the loop body for the
  new round; and a driver's total over the longer list is the total over the rounds plus
  the total of the new round alone. The provider is a function, so it answers the same
  on every fetch.
\<close>

theorem points_nonnegative_and_incremental:
  "0 \<le> dict_get (get_total_driver_points get_session year rounds) d 0
   \<and> get_total_driver_points get_session year (rounds @ [rnd]) =
       points_round get_session year rnd (get_total_driver_points get_session year rounds)
   \<and> dict_get (get_total_driver_points get_session year (rounds @ [rnd])) d 0 =
       dict_get (get_total_driver_points get_session year rounds) d 0
       + dict_get (get_total_driver_points get_session year [rnd]) d 0"
proof (intro conjI)
  show "0 \<le> dict_get (get_total_driver_points get_session year rounds) d 0"
    unfolding total_points_lookup
    by (rule sum_list_nonneg) (auto simp: round_points_nonneg)
  show "get_total_driver_points get_session year (rounds @ [rnd]) =
       points_round get_session year rnd (get_total_driver_points get_session year rounds)"
    by (simp add: get_total_driver_points_def)
  show "dict_get (get_total_driver_points get_session year (rounds @ [rnd])) d 0 =
       dict_get (get_total_driver_points get_session year rounds) d 0
       + dict_get (get_total_driver_points get_session year [rnd]) d 0"
    by (simp add: total_points_lookup)
qed

text \<open>
  Claim C1, evaluated where it fails. The only round has no Race result and a Sprint
  result won by driver 44, worth 8 points by the sprint table; the accumulator returns
  no entry for driver 44, so the driver's total reads 0. The other way round the session
  that loaded counts: a round with a Race result and no Sprint result gives the race
  winner 25 points.
\<close>

theorem race_failure_skips_sprint:
  "sprint_only_sessions 2023 1 R = None
   \<and> sprint_only_sessions 2023 1 Sprint = Some [entry ''44'' ''Lewis Hamilton'' 1]
   \<and> session_points sprint_points_for_rank [entry ''44'' ''Lewis Hamilton'' 1] ''44'' = 8
   \<and> get_total_driver_points sprint_only_sessions 2023 [1] ''44'' = None
   \<and> dict_get (get_total_driver_points sprint_only_sessions 2023 [1]) ''44'' 0 = 0
   \<and> demo_sessions 2023 1 Sprint = None
   \<and> dict_get (get_total_driver_points demo_sessions 2023 [1]) ''1'' 0 = 25"
  by (simp add: sprint_only_sessions_def get_total_driver_points_def points_round_def entry_def
        session_points_def ranked_from_def sprint_points_for_rank_def dict_get_def
        demo_sessions_def FIA_POINTS_RACE_def add_points_def)



section \<open>Properties of the two averages\<close>














section \<open>Properties of the track history's queries\<close>

lemma track_year_calls:
  "c \<in> set (fst (track_performance_year get_event_schedule get_session str_contains circuit_name y st)) \<Longrightarrow>
   c \<in> set (fst st) \<or> call_season c = y"
  by (auto simp: track_performance_year_def Let_def split: prod.splits option.splits list.splits)

lemma track_fold_calls:
  "c \<in> set (fst (foldl (\<lambda>st y. track_performance_year get_event_schedule get_session str_contains circuit_name y st) st years)) \<Longrightarrow>
   c \<in> set (fst st) \<or> call_season c \<in> set years"
proof (induction years arbitrary: st)
  case Nil
  then show ?case by simp
next
  case (Cons y years)
  from Cons.IH [OF Cons.prems [simplified]] show ?case
    by (auto dest: track_year_calls)
qed

lemma set_past_years: "set (past_years year) = {y. year - 3 \<le> y \<and> y \<le> year - 1 \<and> 2018 \<le> y}"
  by (auto simp: past_years_def)

text \<open>
  Claim C6. Every call that \<open>get_past_track_performance\<close> makes to the schedule or to the
  results provider is for a season between \<open>year - 3\<close> and \<open>year - 1\<close> that is not before
  2018; the candidate seasons are exactly the seasons of that window.
\<close>

theorem track_history_queries_window_only:
  "(\<forall>c \<in> set (get_past_track_performance_calls get_event_schedule get_session str_contains circuit_name year).
      year - 3 \<le> call_season c \<and> call_season c \<le> year - 1 \<and> 2018 \<le> call_season c)
   \<and> set (past_years year) = {y. year - 3 \<le> y \<and> y \<le> year - 1 \<and> 2018 \<le> y}"
proof (intro conjI ballI)
  fix c
  assume "c \<in> set (get_past_track_performance_calls get_event_schedule get_session str_contains circuit_name year)"
  then have "call_season c \<in> set (past_years year)"
    unfolding get_past_track_performance_calls_def track_performance_loop_def
    by (auto dest: track_fold_calls)
  then show "year - 3 \<le> call_season c" "call_season c \<le> year - 1" "2018 \<le> call_season c"
    by (simp_all add: set_past_years)
next
  show "set (past_years year) = {y. year - 3 \<le> y \<and> y \<le> year - 1 \<and> 2018 \<le> y}"
    by (rule set_past_years)
qed

theorem track_history_queries_window_only_witness:
  "get_past_track_performance_calls demo_schedule demo_sessions prefix_matcher ''Italian'' 2023 =
     [ScheduleCall 2020, ScheduleCall 2021, ScheduleCall 2022, SessionCall 2022 16 R]
   \<and> (2023 :: int) - 3 \<le> call_season (SessionCall 2022 16 R)
   \<and> call_season (SessionCall 2022 16 R) \<le> (2023 :: int) - 1
   \<and> (2018 :: int) \<le> call_season (SessionCall 2022 16 R)
   \<and> past_years 2020 = [2018, 2019]"
proof -
  have calls: "get_past_track_performance_calls demo_schedule demo_sessions prefix_matcher ''Italian'' 2023 =
     [ScheduleCall 2020, ScheduleCall 2021, ScheduleCall 2022, SessionCall 2022 16 R]"
    by (simp add: get_past_track_performance_calls_def track_performance_loop_def past_years_def
          track_performance_year_def demo_schedule_def prefix_matcher_def demo_sessions_def entry_def
          Let_def)
  then have m: "SessionCall 2022 16 R \<in>
      set (get_past_track_performance_calls demo_schedule demo_sessions prefix_matcher ''Italian'' 2023)"
    by simp
  have py: "past_years 2020 = [2018, 2019]"
    by (simp add: past_years_def)
  from track_history_queries_window_only [of demo_schedule demo_sessions prefix_matcher "''Italian''" 2023,
         THEN conjunct1, THEN bspec, OF m] calls py
  show ?thesis by simp
qed

section \<open>Properties of the season's driver set and names\<close>

lemma collect_drivers_snoc:
  "collect_drivers (race @ [e]) st =
     (insert (DriverNumber e) (fst (collect_drivers race st)),
      (snd (collect_drivers race st))(DriverNumber e \<mapsto> FullName e))"
  by (simp add: collect_drivers_def split: prod.splits)

lemma collect_drivers_Nil: "collect_drivers [] st = st"
  by (simp add: collect_drivers_def)

lemma collect_drivers_fst:
  "fst (collect_drivers race st) = fst st \<union> DriverNumber ` set race"
  by (induction race rule: rev_induct) (auto simp: collect_drivers_snoc collect_drivers_Nil)

lemma collect_drivers_snd_other:
  "d \<notin> DriverNumber ` set race \<Longrightarrow> snd (collect_drivers race st) d = snd st d"
  by (induction race rule: rev_induct) (auto simp: collect_drivers_snoc collect_drivers_Nil)

lemma collect_drivers_snd_listed:
  "d \<in> DriverNumber ` set race \<Longrightarrow>
   snd (collect_drivers race st) d = Some (FullName (last (filter (\<lambda>e. DriverNumber e = d) race)))"
proof (induction race rule: rev_induct)
  case Nil
  then show ?case by simp
next
  case (snoc e race)
  show ?case
  proof (cases "DriverNumber e = d")
    case True
    then show ?thesis by (simp add: collect_drivers_snoc)
  next
    case False
    with snoc.prems have "d \<in> DriverNumber ` set race" by auto
    from snoc.IH [OF this] False show ?thesis by (simp add: collect_drivers_snoc)
  qed
qed

lemma season_driver_names_fold:
  "season_driver_names get_session year valid_rounds =
     foldl (collect_round get_session year) ({}, Map.empty) valid_rounds"
  by (simp add: season_driver_names_def collect_round_def [abs_def])

lemma collect_fold_snd_other:
  "\<forall>rnd \<in> set rounds. \<forall>race. get_session year rnd R = Some race \<longrightarrow> d \<notin> DriverNumber ` set race \<Longrightarrow>
   snd (foldl (collect_round get_session year) st rounds) d = snd st d"
  by (induction rounds arbitrary: st)
     (auto simp: collect_round_def collect_drivers_snd_other split: option.splits)

lemma collect_fold_fst:
  "fst (foldl (collect_round get_session year) st rounds) =
     fst st \<union> {d. \<exists>rnd \<in> set rounds. \<exists>race. get_session year rnd R = Some race \<and> d \<in> DriverNumber ` set race}"
  by (induction rounds arbitrary: st)
     (auto simp: collect_round_def collect_drivers_fst split: option.splits)

text \<open>
  Claim C10. Let a round of the completed rounds have a Race result that lists driver
  \<open>d\<close>, and let no later round's Race result list \<open>d\<close>. Then the name looked up for \<open>d\<close> is the
  full name of the last row of \<open>d\<close> in that result, the row built for \<open>d\<close> shows this name,
  and the track history of \<open>d\<close> is looked up under this name.
\<close>

theorem display_name_from_last_race:
  assumes "valid_rounds = before @ rnd # after"
    and "get_session year rnd R = Some race"
    and "d \<in> DriverNumber ` set race"
    and "\<forall>later \<in> set after. \<forall>results. get_session year later R = Some results \<longrightarrow> d \<notin> DriverNumber ` set results"
    and "name = FullName (last (filter (\<lambda>e. DriverNumber e = d) race))"
  shows "snd (season_driver_names get_session year valid_rounds) d = Some name
         \<and> data_row_for (snd (season_driver_names get_session year valid_rounds)) points avg_finish track_perf d =
             \<lparr>Driver = name, Points = dict_get points d 0, AvgFinishPos = dict_get avg_finish d 20,
              TrackAvgPos = dict_get track_perf name 20\<rparr>"
proof -
  let ?st = "foldl (collect_round get_session year) ({}, Map.empty) before"
  have "snd (season_driver_names get_session year valid_rounds) d =
          snd (collect_round get_session year ?st rnd) d"
    using assms(4)
    by (simp add: season_driver_names_fold assms(1)
          collect_fold_snd_other [where get_session = get_session and year = year and d = d])
  also have "\<dots> = Some name"
    by (simp add: collect_round_def assms(2) assms(5) collect_drivers_snd_listed [OF assms(3)])
  finally have nl: "snd (season_driver_names get_session year valid_rounds) d = Some name" .
  then show ?thesis
    by (simp add: data_row_for_def dict_get_def Let_def)
qed

theorem display_name_from_last_race_witness:
  "[1, 2] = [1] @ 2 # ([] :: int list)
   \<and> renamed_sessions 2023 2 R = Some [entry ''24'' ''Zhou Guanyu'' 1]
   \<and> ''24'' \<in> DriverNumber ` set [entry ''24'' ''Zhou Guanyu'' 1]
   \<and> ''Zhou Guanyu'' = FullName (last (filter (\<lambda>e. DriverNumber e = ''24'') [entry ''24'' ''Zhou Guanyu'' 1]))
   \<and> renamed_sessions 2023 1 R = Some [entry ''24'' ''Guanyu Zhou'' 1]
   \<and> get_past_track_performance demo_schedule renamed_sessions prefix_matcher ''Italian'' 2023 ''Guanyu Zhou'' = Some 1
   \<and> get_past_track_performance demo_schedule renamed_sessions prefix_matcher ''Italian'' 2023 ''Zhou Guanyu'' = None
   \<and> snd (season_driver_names renamed_sessions 2023 [1, 2]) ''24'' = Some ''Zhou Guanyu''
   \<and> data_row_for (snd (season_driver_names renamed_sessions 2023 [1, 2]))
        (get_total_driver_points renamed_sessions 2023 [1, 2])
        (get_avg_finish_pos renamed_sessions 2023 [1, 2])
        (get_past_track_performance demo_schedule renamed_sessions prefix_matcher ''Italian'' 2023) ''24'' =
      \<lparr>Driver = ''Zhou Guanyu'', Points = 50, AvgFinishPos = 1, TrackAvgPos = 20\<rparr>"
proof -
  have r2: "renamed_sessions 2023 2 R = Some [entry ''24'' ''Zhou Guanyu'' 1]"
    and r1: "renamed_sessions 2023 1 R = Some [entry ''24'' ''Guanyu Zhou'' 1]"
    by (simp_all add: renamed_sessions_def)
  have m: "''24'' \<in> DriverNumber ` set [entry ''24'' ''Zhou Guanyu'' 1]"
    and n: "''Zhou Guanyu'' = FullName (last (filter (\<lambda>e. DriverNumber e = ''24'') [entry ''24'' ''Zhou Guanyu'' 1]))"
    by (simp_all add: entry_def)
  have t: "get_past_track_performance demo_schedule renamed_sessions prefix_matcher ''Italian'' 2023 ''Guanyu Zhou'' = Some 1"
    "get_past_track_performance demo_schedule renamed_sessions prefix_matcher ''Italian'' 2023 ''Zhou Guanyu'' = None"
    by (simp_all add: get_past_track_performance_def track_performance_loop_def past_years_def
          track_performance_year_def demo_schedule_def prefix_matcher_def renamed_sessions_def entry_def
          mean_or_default_def Let_def)
  have pts: "dict_get (get_total_driver_points renamed_sessions 2023 [1, 2]) ''24'' 0 = 50"
    by (simp add: get_total_driver_points_def points_round_def renamed_sessions_def entry_def
          FIA_POINTS_RACE_def add_points_def dict_get_def)
  have avg: "dict_get (get_avg_finish_pos renamed_sessions 2023 [1, 2]) ''24'' 20 = 1"
    by (simp add: get_avg_finish_pos_def season_finishes_def renamed_sessions_def entry_def
          mean_or_default_def dict_get_def)
  have trk: "dict_get (get_past_track_performance demo_schedule renamed_sessions prefix_matcher ''Italian'' 2023)
               ''Zhou Guanyu'' 20 = 20"
    by (simp add: dict_get_def t)
  from display_name_from_last_race [of "[1, 2]" "[1]" 2 "[]" renamed_sessions 2023
         "[entry ''24'' ''Zhou Guanyu'' 1]" "''24''" "''Zhou Guanyu''"
         "get_total_driver_points renamed_sessions 2023 [1, 2]"
         "get_avg_finish_pos renamed_sessions 2023 [1, 2]"
         "get_past_track_performance demo_schedule renamed_sessions prefix_matcher ''Italian'' 2023",
         OF _ r2 m _ n]
  have "snd (season_driver_names renamed_sessions 2023 [1, 2]) ''24'' = Some ''Zhou Guanyu''
     \<and> data_row_for (snd (season_driver_names renamed_sessions 2023 [1, 2]))
        (get_total_driver_points renamed_sessions 2023 [1, 2])
        (get_avg_finish_pos renamed_sessions 2023 [1, 2])
        (get_past_track_performance demo_schedule renamed_sessions prefix_matcher ''Italian'' 2023) ''24'' =
      \<lparr>Driver = ''Zhou Guanyu'', Points = 50, AvgFinishPos = 1, TrackAvgPos = 20\<rparr>"
    by (simp add: pts avg trk)
  with r1 r2 m n t show ?thesis by simp
qed


section \<open>Properties of predict_race\<close>

lemma season_data_rows:
  "season_data get_event_schedule get_session str_contains set_iter year circuit_name valid_rounds =
     map (data_row_for (snd (season_driver_names get_session year valid_rounds))
            (get_total_driver_points get_session year valid_rounds)
            (get_avg_finish_pos get_session year valid_rounds)
            (get_past_track_performance get_event_schedule get_session str_contains circuit_name year))
         (set_iter (fst (season_driver_names get_session year valid_rounds)))"
  by (simp add: season_data_def Let_def split: prod.splits)

text \<open>
  Claim C3. For the drivers of the season, in the order the set is iterated, the composite
  scores that \<open>predict_race\<close> computes are \<open>points * 20 + (- avg) * 25 + (- track) * 25\<close>, where
  \<open>points\<close> is looked up by driver number with default 0, \<open>avg\<close> by driver number with default
  20, and \<open>track\<close> by the driver's full name with default 20.
\<close>

theorem custom_score_formula:
  "map CustomScore
     (map add_custom_score
        (season_data get_event_schedule get_session str_contains set_iter year circuit_name valid_rounds)) =
   map (\<lambda>d. dict_get (get_total_driver_points get_session year valid_rounds) d 0 * 20
            + (- dict_get (get_avg_finish_pos get_session year valid_rounds) d 20) * 25
            + (- dict_get (get_past_track_performance get_event_schedule get_session str_contains
                             circuit_name year)
                   (dict_get (snd (season_driver_names get_session year valid_rounds)) d (''Driver #'' @ d))
                   20) * 25)
       (set_iter (fst (season_driver_names get_session year valid_rounds)))"
  by (simp add: season_data_rows add_custom_score_def data_row_for_def Let_def
        W_POINTS_def W_AVG_FINISH_def W_TRACK_AVG_def)

lemma predict_race_Inr:
  assumes "get_event_schedule year = Some schedule"
    and "predict_race get_event_schedule get_session str_contains now set_iter year circuit_name = Inr out"
  shows "out = printed_table (season_data get_event_schedule get_session str_contains set_iter
                                year circuit_name (past_rounds schedule now))"
  using assms by (auto simp: predict_race_def split: option.splits list.splits)

lemma length_add_predicted_rank: "length (add_predicted_rank df) = length df"
  by (simp add: add_predicted_rank_def)

lemma nth_add_predicted_rank:
  "i < length df \<Longrightarrow> add_predicted_rank df ! i = with_predicted_rank i (df ! i)"
  by (simp add: add_predicted_rank_def)

lemma map_PredictedRank_add:
  "map PredictedRank (add_predicted_rank df) = [1..<length df + 1]"
  by (rule nth_equalityI)
     (simp_all add: length_add_predicted_rank nth_add_predicted_rank with_predicted_rank_def
        del: upt_Suc)

lemma map_CustomScore_add:
  "map CustomScore (add_predicted_rank df) = map CustomScore df"
  by (rule nth_equalityI)
     (simp_all add: length_add_predicted_rank nth_add_predicted_rank with_predicted_rank_def)

lemma map_columns_add:
  "map (\<lambda>r. (Driver r, Points r, AvgFinishPos r, TrackAvgPos r, CustomScore r)) (add_predicted_rank df) =
   map (\<lambda>r. (Driver r, Points r, AvgFinishPos r, TrackAvgPos r, CustomScore r)) df"
  by (rule nth_equalityI)
     (simp_all add: length_add_predicted_rank nth_add_predicted_rank with_predicted_rank_def)

lemma PredictedRank_round: "PredictedRank (round_float_cols r) = PredictedRank r"
  by (simp add: round_float_cols_def)

lemma Driver_round: "Driver (round_float_cols r) = Driver r"
  by (simp add: round_float_cols_def)

lemma length_ranked_table: "length (ranked_table data) = length data"
  by (simp add: ranked_table_def length_add_predicted_rank sort_values_descending_def)

lemma scores_descending:
  "sorted (map (\<lambda>r. - CustomScore r) (sort_values_descending df))"
  by (simp add: sort_values_descending_def sorted_sort_key)

lemma ranked_scores_descending:
  assumes "i < j" and "j < length data"
  shows "CustomScore (ranked_table data ! j) \<le> CustomScore (ranked_table data ! i)"
proof -
  let ?s = "sort_values_descending (map add_custom_score data)"
  have len: "length ?s = length data" by (simp add: sort_values_descending_def)
  have "map CustomScore (ranked_table data) = map CustomScore ?s"
    by (simp add: ranked_table_def map_CustomScore_add)
  then have eq: "CustomScore (ranked_table data ! k) = CustomScore (?s ! k)" if "k < length data" for k
    using that len by (metis length_map nth_map)
  have "map (\<lambda>r. - CustomScore r) ?s ! i \<le> map (\<lambda>r. - CustomScore r) ?s ! j"
    using scores_descending [of "map add_custom_score data"] assms len
    by (intro sorted_nth_mono) simp_all
  then have "CustomScore (?s ! j) \<le> CustomScore (?s ! i)"
    using assms len by simp
  then show ?thesis using assms by (simp add: eq)
qed

lemma ranked_columns_mset:
  "mset (map (\<lambda>r. (Driver r, Points r, AvgFinishPos r, TrackAvgPos r, CustomScore r)) (ranked_table data)) =
   mset (map (\<lambda>r. (Driver r, Points r, AvgFinishPos r, TrackAvgPos r, CustomScore r))
           (map add_custom_score data))"
  unfolding ranked_table_def map_columns_add sort_values_descending_def
  by (simp only: mset_map mset_sort)

text \<open>
  Claim C4. When \<open>predict_race\<close> prints a table for a non-empty driver set of \<open>N\<close> rows, the
  predicted ranks read 1, 2, ..., \<open>N\<close> from top to bottom; the table is the ranked table with
  its numeric columns rounded, and rounding leaves the ranks alone; the ranked table holds
  the scored rows, each once, in descending order of the unrounded score; the first row
  has rank 1 and no row has a higher unrounded score.
\<close>

theorem ranks_dense_by_unrounded_score:
  assumes "get_event_schedule year = Some schedule"
    and "predict_race get_event_schedule get_session str_contains now set_iter year circuit_name = Inr out"
    and "data = season_data get_event_schedule get_session str_contains set_iter year circuit_name
                  (past_rounds schedule now)"
    and "data \<noteq> []"
  shows "map PredictedRank out = [1..<length data + 1]
       \<and> out = map round_float_cols (ranked_table data)
       \<and> map PredictedRank (ranked_table data) = map PredictedRank out
       \<and> mset (map (\<lambda>r. (Driver r, Points r, AvgFinishPos r, TrackAvgPos r, CustomScore r))
                 (ranked_table data)) =
         mset (map (\<lambda>r. (Driver r, Points r, AvgFinishPos r, TrackAvgPos r, CustomScore r))
                 (map add_custom_score data))
       \<and> (\<forall>i j. i < j \<and> j < length data \<longrightarrow>
             CustomScore (ranked_table data ! j) \<le> CustomScore (ranked_table data ! i))
       \<and> PredictedRank (hd out) = 1
       \<and> (\<forall>r \<in> set data. CustomScore (add_custom_score r) \<le> CustomScore (hd (ranked_table data)))"
proof -
  have out: "out = map round_float_cols (ranked_table data)"
    using predict_race_Inr [OF assms(1,2)] by (simp add: assms(3) printed_table_def)
  have ranks: "map PredictedRank (ranked_table data) = [1..<length data + 1]"
    by (simp add: ranked_table_def map_PredictedRank_add sort_values_descending_def del: upt_Suc)
  have same: "map PredictedRank out = map PredictedRank (ranked_table data)"
    by (simp add: out PredictedRank_round)
  have ne: "ranked_table data \<noteq> []"
    using assms(4) length_ranked_table [of data] by (metis length_0_conv)
  have first: "PredictedRank (hd out) = 1"
  proof -
    have "PredictedRank (hd out) = hd (map PredictedRank out)"
      using ne by (simp add: out hd_map)
    also have "\<dots> = hd [1..<length data + 1]" by (simp only: same ranks)
    also have "\<dots> = 1" using assms(4) by (simp add: upt_conv_Cons del: upt_Suc)
    finally show ?thesis .
  qed
  have top: "CustomScore (add_custom_score r) \<le> CustomScore (hd (ranked_table data))" if "r \<in> set data" for r
  proof -
    have "(Driver (add_custom_score r), Points (add_custom_score r), AvgFinishPos (add_custom_score r),
           TrackAvgPos (add_custom_score r), CustomScore (add_custom_score r))
          \<in># mset (map (\<lambda>r. (Driver r, Points r, AvgFinishPos r, TrackAvgPos r, CustomScore r))
                 (map add_custom_score data))"
      using that by auto
    then have "(Driver (add_custom_score r), Points (add_custom_score r), AvgFinishPos (add_custom_score r),
           TrackAvgPos (add_custom_score r), CustomScore (add_custom_score r))
          \<in> set (map (\<lambda>r. (Driver r, Points r, AvgFinishPos r, TrackAvgPos r, CustomScore r))
                 (ranked_table data))"
      by (simp only: ranked_columns_mset [symmetric] set_mset_mset)
    then obtain q where q: "q \<in> set (ranked_table data)"
      and s: "CustomScore q = CustomScore (add_custom_score r)"
      by auto
    then obtain j where j: "j < length data" "ranked_table data ! j = q"
      by (metis in_set_conv_nth length_ranked_table)
    have "CustomScore (ranked_table data ! j) \<le> CustomScore (ranked_table data ! 0)"
    proof (cases "j = 0")
      case True
      then show ?thesis by simp
    next
      case False
      then show ?thesis using ranked_scores_descending [of 0 j data] j by simp
    qed
    then show ?thesis using ne j s by (simp add: hd_conv_nth)
  qed
  show ?thesis
    using out ranks same ranked_columns_mset [of data] ranked_scores_descending [of _ _ data] first top
    by (simp del: upt_Suc)
qed

text \<open>The equations that run the model on the small season.\<close>

lemmas model_defs = predict_race_def past_rounds_def season_data_def
     get_total_driver_points_def points_round_def FIA_POINTS_RACE_def FIA_POINTS_SPRINT_def add_points_def
     get_avg_finish_pos_def season_finishes_def
     get_past_track_performance_def track_performance_loop_def past_years_def track_performance_year_def
     season_driver_names_def collect_drivers_def data_row_for_def dict_get_def mean_or_default_def
     printed_table_def ranked_table_def add_custom_score_def sort_values_descending_def add_predicted_rank_def
     with_predicted_rank_def
     round_float_cols_def round2_def W_POINTS_def W_AVG_FINISH_def W_TRACK_AVG_def Let_def

lemmas demo_defs = demo_schedule_def prefix_matcher_def demo_sessions_def entry_def demo_iter_def


theorem ranks_dense_by_unrounded_score_witness:
  "predict_race demo_schedule demo_sessions prefix_matcher 250 demo_iter 2023 ''Italian'' =
     Inr [\<lparr>Driver = ''Max Verstappen'', Points = 51, AvgFinishPos = 3 / 2, TrackAvgPos = 1,
            CustomScore = 1915 / 2, PredictedRank = 1\<rparr>,
          \<lparr>Driver = ''Lewis Hamilton'', Points = 50, AvgFinishPos = 3 / 2, TrackAvgPos = 5,
            CustomScore = 1675 / 2, PredictedRank = 2\<rparr>]
   \<and> season_data demo_schedule demo_sessions prefix_matcher demo_iter 2023 ''Italian'' [1, 2] =
       [\<lparr>Driver = ''Lewis Hamilton'', Points = 50, AvgFinishPos = 3 / 2, TrackAvgPos = 5\<rparr>,
        \<lparr>Driver = ''Max Verstappen'', Points = 51, AvgFinishPos = 3 / 2, TrackAvgPos = 1\<rparr>]
   \<and> map PredictedRank
        [\<lparr>Driver = ''Max Verstappen'', Points = 51, AvgFinishPos = 3 / 2, TrackAvgPos = 1,
            CustomScore = 1915 / 2, PredictedRank = 1\<rparr>,
          \<lparr>Driver = ''Lewis Hamilton'', Points = 50, AvgFinishPos = 3 / 2, TrackAvgPos = 5,
            CustomScore = 1675 / 2, PredictedRank = 2\<rparr>] = [1..<2 + 1]
   \<and> CustomScore (add_custom_score
         \<lparr>Driver = ''Lewis Hamilton'', Points = 50, AvgFinishPos = 3 / 2, TrackAvgPos = 5\<rparr>)
       \<le> CustomScore (hd (ranked_table
         [\<lparr>Driver = ''Lewis Hamilton'', Points = 50, AvgFinishPos = 3 / 2, TrackAvgPos = 5\<rparr>,
          \<lparr>Driver = ''Max Verstappen'', Points = 51, AvgFinishPos = 3 / 2, TrackAvgPos = 1\<rparr>]))"
proof -
  let ?schedule = "[\<lparr>EventName = ''Bahrain Grand Prix'', RoundNumber = 1, EventDate = 100\<rparr>,
              \<lparr>EventName = ''Italian Grand Prix'', RoundNumber = 2, EventDate = 200\<rparr>,
              \<lparr>EventName = ''Abu Dhabi Grand Prix'', RoundNumber = 3, EventDate = 300\<rparr>]"
  let ?data = "[\<lparr>Driver = ''Lewis Hamilton'', Points = 50, AvgFinishPos = 3 / 2, TrackAvgPos = 5\<rparr>,
        \<lparr>Driver = ''Max Verstappen'', Points = 51, AvgFinishPos = 3 / 2, TrackAvgPos = 1\<rparr>]"
  have sched: "demo_schedule 2023 = Some ?schedule"
    by (simp add: demo_schedule_def)
  have run: "predict_race demo_schedule demo_sessions prefix_matcher 250 demo_iter 2023 ''Italian'' =
     Inr [\<lparr>Driver = ''Max Verstappen'', Points = 51, AvgFinishPos = 3 / 2, TrackAvgPos = 1,
            CustomScore = 1915 / 2, PredictedRank = 1\<rparr>,
          \<lparr>Driver = ''Lewis Hamilton'', Points = 50, AvgFinishPos = 3 / 2, TrackAvgPos = 5,
            CustomScore = 1675 / 2, PredictedRank = 2\<rparr>]"
    by (simp add: model_defs demo_defs)
  have rounds: "past_rounds ?schedule 250 = [1, 2]"
    by (simp add: past_rounds_def)
  have data: "season_data demo_schedule demo_sessions prefix_matcher demo_iter 2023 ''Italian'' [1, 2] = ?data"
    by (simp add: model_defs demo_defs)
  have d: "?data = season_data demo_schedule demo_sessions prefix_matcher demo_iter 2023 ''Italian''
                     (past_rounds ?schedule 250)"
    by (simp only: rounds data)
  have ne: "?data \<noteq> []" by simp
  note all = ranks_dense_by_unrounded_score [OF sched run d ne]
  have len: "length ?data = 2" by simp
  from all have "map PredictedRank
        [\<lparr>Driver = ''Max Verstappen'', Points = 51, AvgFinishPos = 3 / 2, TrackAvgPos = 1,
            CustomScore = 1915 / 2, PredictedRank = 1\<rparr>,
          \<lparr>Driver = ''Lewis Hamilton'', Points = 50, AvgFinishPos = 3 / 2, TrackAvgPos = 5,
            CustomScore = 1675 / 2, PredictedRank = 2\<rparr>] = [1..<length ?data + 1]"
    by (rule conjunct1)
  then have ranks: "map PredictedRank
        [\<lparr>Driver = ''Max Verstappen'', Points = 51, AvgFinishPos = 3 / 2, TrackAvgPos = 1,
            CustomScore = 1915 / 2, PredictedRank = 1\<rparr>,
          \<lparr>Driver = ''Lewis Hamilton'', Points = 50, AvgFinishPos = 3 / 2, TrackAvgPos = 5,
            CustomScore = 1675 / 2, PredictedRank = 2\<rparr>] = [1..<2 + 1]"
    by (simp only: len)
  from all have "\<forall>r \<in> set ?data. CustomScore (add_custom_score r) \<le> CustomScore (hd (ranked_table ?data))"
    by (elim conjE)
  then have top: "CustomScore (add_custom_score
         \<lparr>Driver = ''Lewis Hamilton'', Points = 50, AvgFinishPos = 3 / 2, TrackAvgPos = 5\<rparr>)
       \<le> CustomScore (hd (ranked_table ?data))"
    by simp
  from run data ranks top show ?thesis by (simp only: simp_thms)
qed

lemma insort_key_map:
  "insort_key k (f x) (map f xs) = map f (insort_key (\<lambda>y. k (f y)) x xs)"
  by (induction xs) simp_all

lemma sort_key_map:
  "sort_key k (map f xs) = map f (sort_key (\<lambda>y. k (f y)) xs)"
  by (induction xs) (simp_all add: insort_key_map)

lemma season_drivers_set:
  "fst (season_driver_names get_session year valid_rounds) =
     {d. \<exists>rnd \<in> set valid_rounds. \<exists>race. get_session year rnd R = Some race \<and> d \<in> DriverNumber ` set race}"
  by (simp add: season_driver_names_fold collect_fold_fst)

text \<open>
  Claim C2, as amended. The rows of the printed table correspond one to one to the drivers
  listed in the Race result of at least one completed round whose Race result was
  fetched: there is an enumeration of exactly these drivers, without repetition, whose
  \<open>i\<close>-th driver is shown in the \<open>i\<close>-th row, by name and rounded points, with rank \<open>i + 1\<close>.
  Sprint results do not enter the driver set.
\<close>

theorem output_rows_are_race_drivers:
  assumes "get_event_schedule year = Some schedule"
    and "predict_race get_event_schedule get_session str_contains now set_iter year circuit_name = Inr out"
    and "valid_rounds = past_rounds schedule now"
    and "set (set_iter (fst (season_driver_names get_session year valid_rounds))) =
           fst (season_driver_names get_session year valid_rounds)"
    and "distinct (set_iter (fst (season_driver_names get_session year valid_rounds)))"
  shows "\<exists>order. distinct order
           \<and> set order = {d. \<exists>rnd \<in> set valid_rounds. \<exists>race.
                              get_session year rnd R = Some race \<and> d \<in> DriverNumber ` set race}
           \<and> length out = length order
           \<and> (\<forall>i < length order.
                 Driver (out ! i) =
                   dict_get (snd (season_driver_names get_session year valid_rounds)) (order ! i)
                     (''Driver #'' @ order ! i)
                 \<and> Points (out ! i) =
                     round2 (dict_get (get_total_driver_points get_session year valid_rounds) (order ! i) 0)
                 \<and> PredictedRank (out ! i) = i + 1)"
proof -
  let ?row = "data_row_for (snd (season_driver_names get_session year valid_rounds))
            (get_total_driver_points get_session year valid_rounds)
            (get_avg_finish_pos get_session year valid_rounds)
            (get_past_track_performance get_event_schedule get_session str_contains circuit_name year)"
  let ?ds = "set_iter (fst (season_driver_names get_session year valid_rounds))"
  let ?order = "sort_key (\<lambda>d. - CustomScore (add_custom_score (?row d))) ?ds"
  have "out = printed_table (map ?row ?ds)"
    using predict_race_Inr [OF assms(1,2)] by (simp add: assms(3) season_data_rows)
  then have out: "out = map round_float_cols (add_predicted_rank (map (\<lambda>d. add_custom_score (?row d)) ?order))"
    by (simp add: printed_table_def ranked_table_def sort_values_descending_def sort_key_map o_def)
  have len: "length out = length ?order"
    by (simp add: out length_add_predicted_rank)
  have rows: "out ! i = round_float_cols (with_predicted_rank i (add_custom_score (?row (?order ! i))))"
    if "i < length ?order" for i
    using that by (simp add: out length_add_predicted_rank nth_add_predicted_rank)
  have fields: "Driver (out ! i) =
                   dict_get (snd (season_driver_names get_session year valid_rounds)) (?order ! i)
                     (''Driver #'' @ ?order ! i)
                 \<and> Points (out ! i) =
                     round2 (dict_get (get_total_driver_points get_session year valid_rounds) (?order ! i) 0)
                 \<and> PredictedRank (out ! i) = i + 1"
    if "i < length ?order" for i
    by (simp add: rows [OF that] round_float_cols_def with_predicted_rank_def add_custom_score_def
          data_row_for_def Let_def)
  have "distinct ?order" using assms(5) by simp
  moreover have "set ?order = {d. \<exists>rnd \<in> set valid_rounds. \<exists>race.
                              get_session year rnd R = Some race \<and> d \<in> DriverNumber ` set race}"
    using assms(4) by (simp add: season_drivers_set)
  ultimately show ?thesis using len fields by blast
qed

theorem output_rows_are_race_drivers_witness:
  "predict_race demo_schedule sprint_guest_sessions prefix_matcher 250 demo_iter 2023 ''Italian'' =
     Inr [\<lparr>Driver = ''Max Verstappen'', Points = 32, AvgFinishPos = 1, TrackAvgPos = 20,
            CustomScore = 115, PredictedRank = 1\<rparr>]
   \<and> demo_iter (fst (season_driver_names sprint_guest_sessions 2023 [1, 2])) = [''1'']
   \<and> (\<exists>order. distinct order \<and> set order = {''1''} \<and> length order = 1
        \<and> ''Max Verstappen'' =
            dict_get (snd (season_driver_names sprint_guest_sessions 2023 [1, 2])) (order ! 0)
              (''Driver #'' @ order ! 0))"
proof -
  let ?schedule = "[\<lparr>EventName = ''Bahrain Grand Prix'', RoundNumber = 1, EventDate = 100\<rparr>,
              \<lparr>EventName = ''Italian Grand Prix'', RoundNumber = 2, EventDate = 200\<rparr>,
              \<lparr>EventName = ''Abu Dhabi Grand Prix'', RoundNumber = 3, EventDate = 300\<rparr>]"
  have sched: "demo_schedule 2023 = Some ?schedule"
    by (simp add: demo_schedule_def)
  have run: "predict_race demo_schedule sprint_guest_sessions prefix_matcher 250 demo_iter 2023 ''Italian'' =
     Inr [\<lparr>Driver = ''Max Verstappen'', Points = 32, AvgFinishPos = 1, TrackAvgPos = 20,
            CustomScore = 115, PredictedRank = 1\<rparr>]"
    by (simp add: model_defs demo_defs sprint_guest_sessions_def)
  have rounds: "[1, 2] = past_rounds ?schedule 250"
    by (simp add: past_rounds_def)
  have drivers: "fst (season_driver_names sprint_guest_sessions 2023 [1, 2]) = {''1''}"
    by (simp add: season_driver_names_def collect_drivers_def sprint_guest_sessions_def entry_def)
  have iter: "demo_iter (fst (season_driver_names sprint_guest_sessions 2023 [1, 2])) = [''1'']"
    by (simp add: drivers demo_iter_def)
  have s: "set (demo_iter (fst (season_driver_names sprint_guest_sessions 2023 [1, 2]))) =
             fst (season_driver_names sprint_guest_sessions 2023 [1, 2])"
    by (simp add: iter) (simp add: drivers)
  have di: "distinct (demo_iter (fst (season_driver_names sprint_guest_sessions 2023 [1, 2])))"
    by (simp add: iter)
  have race_drivers: "{d. \<exists>rnd \<in> set [1, 2]. \<exists>race.
            sprint_guest_sessions 2023 rnd R = Some race \<and> d \<in> DriverNumber ` set race} = {''1''}"
    by (auto simp: sprint_guest_sessions_def entry_def)
  from output_rows_are_race_drivers [OF sched run rounds s di]
  obtain order where "distinct order" "set order = {''1''}" "length order = 1"
    "''Max Verstappen'' =
            dict_get (snd (season_driver_names sprint_guest_sessions 2023 [1, 2])) (order ! 0)
              (''Driver #'' @ order ! 0)"
    unfolding race_drivers by force
  with run iter show ?thesis by blast
qed

text \<open>
  Claim C2 as stated fails: round 1 is completed, its Sprint result lists driver 40 (Liam
  Lawson), its Race result lists driver 1 only, and the printed table has one row, for
  driver 1.
\<close>

theorem sprint_only_driver_missing_from_output:
  "past_rounds [\<lparr>EventName = ''Bahrain Grand Prix'', RoundNumber = 1, EventDate = 100\<rparr>,
                \<lparr>EventName = ''Italian Grand Prix'', RoundNumber = 2, EventDate = 200\<rparr>,
                \<lparr>EventName = ''Abu Dhabi Grand Prix'', RoundNumber = 3, EventDate = 300\<rparr>] 250 = [1, 2]
   \<and> demo_schedule 2023 =
       Some [\<lparr>EventName = ''Bahrain Grand Prix'', RoundNumber = 1, EventDate = 100\<rparr>,
             \<lparr>EventName = ''Italian Grand Prix'', RoundNumber = 2, EventDate = 200\<rparr>,
             \<lparr>EventName = ''Abu Dhabi Grand Prix'', RoundNumber = 3, EventDate = 300\<rparr>]
   \<and> sprint_guest_sessions 2023 1 Sprint =
       Some [entry ''40'' ''Liam Lawson'' 1, entry ''1'' ''Max Verstappen'' 2]
   \<and> predict_race demo_schedule sprint_guest_sessions prefix_matcher 250 demo_iter 2023 ''Italian'' =
       Inr [\<lparr>Driver = ''Max Verstappen'', Points = 32, AvgFinishPos = 1, TrackAvgPos = 20,
              CustomScore = 115, PredictedRank = 1\<rparr>]
   \<and> ''Liam Lawson'' \<notin> set (map Driver
       [\<lparr>Driver = ''Max Verstappen'', Points = 32, AvgFinishPos = 1, TrackAvgPos = 20,
              CustomScore = 115, PredictedRank = (1::nat)\<rparr>])"
  by (simp add: model_defs demo_defs sprint_guest_sessions_def)

text \<open>
  Claim C8. When the schedule is available, the circuit is found and the Race fetch of every
  completed round fails, no driver is collected, the table built from no rows is empty,
  and \<open>predict_race\<close> ends with the empty table rather than with a failure. Iterating the
  empty set yields nothing.
\<close>

theorem empty_driver_set_empty_table:
  assumes "get_event_schedule year = Some schedule"
    and "str_contains circuit_name = Some matches"
    and "filter (\<lambda>ev. matches (EventName ev)) schedule \<noteq> []"
    and "\<forall>rnd \<in> set (past_rounds schedule now). get_session year rnd R = None"
    and "set_iter {} = []"
  shows "fst (season_driver_names get_session year (past_rounds schedule now)) = {}
         \<and> printed_table [] = []
         \<and> predict_race get_event_schedule get_session str_contains now set_iter year circuit_name = Inr []"
proof -
  have drivers: "fst (season_driver_names get_session year (past_rounds schedule now)) = {}"
    using assms(4) by (auto simp: season_drivers_set)
  have table: "printed_table [] = []"
    by (simp add: printed_table_def ranked_table_def sort_values_descending_def add_predicted_rank_def)
  have "season_data get_event_schedule get_session str_contains set_iter year circuit_name
          (past_rounds schedule now) = []"
    by (simp add: season_data_rows drivers assms(5))
  then have "predict_race get_event_schedule get_session str_contains now set_iter year circuit_name = Inr []"
    using assms(1-3) by (simp add: predict_race_def table split: list.splits)
  with drivers table show ?thesis by simp
qed

theorem empty_driver_set_empty_table_witness:
  "demo_iter {} = []
   \<and> fst (season_driver_names no_sessions 2023 [1, 2]) = {}
   \<and> predict_race demo_schedule no_sessions prefix_matcher 250 demo_iter 2023 ''Italian'' = Inr []"
proof -
  let ?schedule = "[\<lparr>EventName = ''Bahrain Grand Prix'', RoundNumber = 1, EventDate = 100\<rparr>,
              \<lparr>EventName = ''Italian Grand Prix'', RoundNumber = 2, EventDate = 200\<rparr>,
              \<lparr>EventName = ''Abu Dhabi Grand Prix'', RoundNumber = 3, EventDate = 300\<rparr>]"
  let ?matches = "\<lambda>name. take (length ''Italian'') name = ''Italian''"
  have sched: "demo_schedule 2023 = Some ?schedule"
    by (simp add: demo_schedule_def)
  have pat: "prefix_matcher ''Italian'' = Some ?matches"
    by (simp add: prefix_matcher_def)
  have found: "filter (\<lambda>ev. ?matches (EventName ev)) ?schedule \<noteq> []"
    by simp
  have fails: "\<forall>rnd \<in> set (past_rounds ?schedule 250). no_sessions 2023 rnd R = None"
    by (simp add: no_sessions_def)
  have iter: "demo_iter {} = []"
    by (simp add: demo_iter_def)
  have rounds: "past_rounds ?schedule 250 = [1, 2]"
    by (simp add: past_rounds_def)
  from empty_driver_set_empty_table [where get_event_schedule = demo_schedule and year = 2023
         and schedule = ?schedule and str_contains = prefix_matcher and circuit_name = "''Italian''"
         and matches = ?matches and now = 250 and get_session = no_sessions and set_iter = demo_iter,
         OF sched pat found fails iter] iter
  show ?thesis by (simp add: rounds)
qed

end
